theory Spec2Isabelle
  imports Complex_Main
begin

section \<open>Data model\<close>

text \<open>
  Documents are addressed by their ObjectId. The handlers only compare ids for equality
  (through \<^verbatim>\<open>toString()\<close>) and use them as keys, so an id is a natural number here.
  A \<^verbatim>\<open>Date\<close> is its count of milliseconds. Every \<^verbatim>\<open>new Date()\<close> of one handler run
  is the one instant \<open>now\<close> that the handler is given.
\<close>

type_synonym oid = nat
type_synonym date = int

text \<open>An error response: the HTTP status and the message of the JSON body.\<close>

type_synonym error = "nat \<times> string"

subsection \<open>models/ListenTogetherRequest\<close>

datatype status = Pending | Accepted | Declined | Expired

record request =
  from_id :: oid
  to_id :: oid
  status :: status
  sessionId :: "oid option"
  expiresAt :: date

subsection \<open>models/ListenSession\<close>

record track =
  track_id :: string
  title :: string
  artist :: string
  uri :: string
  artwork :: "string option"
  duration :: "real option"

record playback_state =
  position :: real
  isPlaying :: bool
  updatedAt :: date

record session =
  host :: oid
  participants :: "oid list"
  currentTrack :: "track option"
  queue :: "track list"
  playbackState :: playback_state
  isActive :: bool
  endedAt :: "date option"

subsection \<open>models/User\<close>

text \<open>
  Modelled from the spec: the User model (\<^verbatim>\<open>models/User\<close>) is imported by both route
  files but is not among the sources. The record holds the three fields the handlers read
  and write: the friend set, the inbound invitation ids and the optional active-session
  pointer of the spec's user directory.
\<close>

record user =
  friends :: "oid list"
  listenTogetherRequests :: "oid list"
  activeListenSession :: "oid option"

subsection \<open>The record store\<close>

text \<open>
  The three collections, each a map from ObjectId to document. A handler takes the store
  and returns its answer with the store it leaves behind. Two things lie outside the
  handlers' own logic and are not part of the model: a failing store call (the
  \<^verbatim>\<open>catch\<close> branch with status 500) and the time-to-live index that removes
  requests some time after \<open>expiresAt\<close>.
\<close>

record db =
  users :: "oid \<rightharpoonup> user"
  sessions :: "oid \<rightharpoonup> session"
  requests :: "oid \<rightharpoonup> request"

subsection \<open>The body of a sync request\<close>

text \<open>
  A key of \<^verbatim>\<open>req.body\<close> after destructuring: missing (\<^verbatim>\<open>undefined\<close>), JSON
  \<^verbatim>\<open>null\<close>, or a value of the type that \<^verbatim>\<open>IListenSession\<close> gives the field. On such a
  key \<^verbatim>\<open>typeof x === 'number'\<close> and \<^verbatim>\<open>typeof x === 'boolean'\<close> hold exactly for
  \<open>Val\<close>; an object and an array (the empty one too) are truthy, \<^verbatim>\<open>undefined\<close> and
  \<^verbatim>\<open>null\<close> are falsy.
\<close>

datatype 'a field = Absent | Null | Val 'a

record body =
  body_currentTrack :: "track field"
  body_position :: "real field"
  body_isPlaying :: "bool field"
  body_queue :: "track list field"

section \<open>routes/listen-together\<close>

text \<open>
  \<^verbatim>\<open>ListenSession.findByIdAndUpdate(id, {isActive: false, endedAt: new Date()})\<close>:
  nothing happens when no session has the id.
\<close>

definition findByIdAndUpdate_ended :: "oid \<Rightarrow> date \<Rightarrow> (oid \<rightharpoonup> session) \<Rightarrow> (oid \<rightharpoonup> session)" where
  "findByIdAndUpdate_ended i now ss =
     (case ss i of
        None \<Rightarrow> ss
      | Some s \<Rightarrow> ss(i \<mapsto> s\<lparr>isActive := False, endedAt := Some now\<rparr>))"

text \<open>The session document that the accept handler constructs.\<close>

definition new_session :: "oid \<Rightarrow> oid \<Rightarrow> date \<Rightarrow> session" where
  "new_session h p now =
     \<lparr>host = h, participants = [h, p], currentTrack = None, queue = [],
      playbackState = \<lparr>position = 0, isPlaying = False, updatedAt = now\<rparr>,
      isActive = True, endedAt = None\<rparr>"

text \<open>
  \<^verbatim>\<open>POST /requests/:requestId/accept\<close>. The caller is \<^verbatim>\<open>req.userId\<close> (\<open>None\<close> when
  the middleware set none); \<open>newId\<close> is the ObjectId that the new session document gets.
  The answer is the error, or the id and the document of the new session.
\<close>

definition accept_request ::
  "oid \<Rightarrow> oid option \<Rightarrow> date \<Rightarrow> oid \<Rightarrow> db \<Rightarrow> (error + oid \<times> session) \<times> db" where
  "accept_request requestId caller now newId d =
     (case caller of
        None \<Rightarrow> (Inl (401, ''Unauthorized''), d)
      | Some userId \<Rightarrow>
     (case requests d requestId of
        None \<Rightarrow> (Inl (404, ''Request not found''), d)
      | Some request \<Rightarrow>
          if to_id request \<noteq> userId then
            (Inl (403, ''Unauthorized to accept this request''), d)
          else if status request \<noteq> Pending then
            (Inl (400, ''Request is no longer pending''), d)
          else if expiresAt request < now then
            (Inl (400, ''Request has expired''),
             d\<lparr>requests := (requests d)(requestId \<mapsto> request\<lparr>status := Expired\<rparr>)\<rparr>)
          else
     (case users d (from_id request) of
        None \<Rightarrow> (Inl (404, ''User not found''), d)
      | Some hostUser \<Rightarrow>
     (case users d userId of
        None \<Rightarrow> (Inl (404, ''User not found''), d)
      | Some participantUser \<Rightarrow>
          let ss1 = (case activeListenSession hostUser of
                       None \<Rightarrow> sessions d
                     | Some a \<Rightarrow> findByIdAndUpdate_ended a now (sessions d));
              ss2 = (case activeListenSession participantUser of
                       None \<Rightarrow> ss1
                     | Some a \<Rightarrow> findByIdAndUpdate_ended a now ss1);
              session = new_session (from_id request) userId now;
              ss3 = ss2(newId \<mapsto> session);
              rs = (requests d)(requestId \<mapsto>
                      request\<lparr>status := Accepted, sessionId := Some newId\<rparr>);
              hostUser' = hostUser\<lparr>activeListenSession := Some newId\<rparr>;
              participantUser' = participantUser
                \<lparr>activeListenSession := Some newId,
                 listenTogetherRequests :=
                   filter (\<lambda>i. i \<noteq> requestId) (listenTogetherRequests participantUser)\<rparr>;
              us = (users d)(from_id request \<mapsto> hostUser', userId \<mapsto> participantUser')
          in (Inr (newId, session), \<lparr>users = us, sessions = ss3, requests = rs\<rparr>)))))"

text \<open>\<^verbatim>\<open>POST /requests/:requestId/decline\<close>.\<close>

definition decline_request :: "oid \<Rightarrow> oid option \<Rightarrow> db \<Rightarrow> (error + string) \<times> db" where
  "decline_request requestId caller d =
     (case caller of
        None \<Rightarrow> (Inl (401, ''Unauthorized''), d)
      | Some userId \<Rightarrow>
     (case requests d requestId of
        None \<Rightarrow> (Inl (404, ''Request not found''), d)
      | Some request \<Rightarrow>
          if to_id request \<noteq> userId then
            (Inl (403, ''Unauthorized to decline this request''), d)
          else
            let d1 = d\<lparr>requests := (requests d)(requestId \<mapsto> request\<lparr>status := Declined\<rparr>)\<rparr>;
                d2 = (case users d1 userId of
                        None \<Rightarrow> d1
                      | Some user \<Rightarrow>
                          d1\<lparr>users := (users d1)(userId \<mapsto> user
                               \<lparr>listenTogetherRequests :=
                                  filter (\<lambda>i. i \<noteq> requestId) (listenTogetherRequests user)\<rparr>)\<rparr>)
            in (Inr ''Request declined'', d2)))"

section \<open>routes/listen-sessions\<close>

text \<open>
  \<^verbatim>\<open>GET /active\<close>. The answer is the session of the caller's pointer, or \<open>None\<close> for
  \<^verbatim>\<open>{session: null}\<close>. The user documents that \<^verbatim>\<open>populate\<close> puts in place of the
  host's and the participants' ids are left out of the answer.
\<close>

definition get_active :: "oid option \<Rightarrow> db \<Rightarrow> (error + (oid \<times> session) option) \<times> db" where
  "get_active caller d =
     (case caller of
        None \<Rightarrow> (Inl (401, ''Unauthorized''), d)
      | Some userId \<Rightarrow>
     (case users d userId of
        None \<Rightarrow> (Inr None, d)
      | Some user \<Rightarrow>
     (case activeListenSession user of
        None \<Rightarrow> (Inr None, d)
      | Some a \<Rightarrow>
          let stale = (Inr None,
                       d\<lparr>users := (users d)(userId \<mapsto> user\<lparr>activeListenSession := None\<rparr>)\<rparr>)
          in (case sessions d a of
                None \<Rightarrow> stale
              | Some session \<Rightarrow>
                  if \<not> isActive session then stale else (Inr (Some (a, session)), d)))))"

text \<open>
  \<^verbatim>\<open>POST /:sessionId/sync\<close>. The answer is the error, or the playback state and the
  current track of the saved session.
\<close>

definition sync_playback ::
  "oid \<Rightarrow> oid option \<Rightarrow> body \<Rightarrow> date \<Rightarrow> db \<Rightarrow> (error + playback_state \<times> track option) \<times> db" where
  "sync_playback sid caller b now d =
     (case caller of
        None \<Rightarrow> (Inl (401, ''Unauthorized''), d)
      | Some userId \<Rightarrow>
     (case sessions d sid of
        None \<Rightarrow> (Inl (404, ''Session not found''), d)
      | Some session \<Rightarrow>
          if \<not> isActive session then
            (Inl (400, ''Session is no longer active''), d)
          else if host session \<noteq> userId then
            (Inl (403, ''Only the host can update playback state''), d)
          else
            let s1 = (case body_position b of
                        Val p \<Rightarrow> session\<lparr>playbackState := (playbackState session)\<lparr>position := p\<rparr>\<rparr>
                      | _ \<Rightarrow> session);
                s2 = (case body_isPlaying b of
                        Val p \<Rightarrow> s1\<lparr>playbackState := (playbackState s1)\<lparr>isPlaying := p\<rparr>\<rparr>
                      | _ \<Rightarrow> s1);
                s3 = (case body_currentTrack b of
                        Val t \<Rightarrow> s2\<lparr>currentTrack := Some t\<rparr>
                      | _ \<Rightarrow> s2);
                s4 = (case body_queue b of
                        Val q \<Rightarrow> s3\<lparr>queue := q\<rparr>
                      | _ \<Rightarrow> s3);
                s5 = s4\<lparr>playbackState := (playbackState s4)\<lparr>updatedAt := now\<rparr>\<rparr>
            in (Inr (playbackState s5, currentTrack s5),
                d\<lparr>sessions := (sessions d)(sid \<mapsto> s5)\<rparr>)))"

text \<open>
  \<^verbatim>\<open>User.updateMany({_id: {$in: ps}}, {$unset: {activeListenSession: 1}})\<close>.
\<close>

definition updateMany_unset :: "oid list \<Rightarrow> (oid \<rightharpoonup> user) \<Rightarrow> (oid \<rightharpoonup> user)" where
  "updateMany_unset ps us =
     (\<lambda>i. if i \<in> set ps
          then map_option (\<lambda>u. u\<lparr>activeListenSession := None\<rparr>) (us i)
          else us i)"

text \<open>\<^verbatim>\<open>POST /:sessionId/leave\<close>.\<close>

definition leave_session :: "oid \<Rightarrow> oid option \<Rightarrow> date \<Rightarrow> db \<Rightarrow> (error + string) \<times> db" where
  "leave_session sid caller now d =
     (case caller of
        None \<Rightarrow> (Inl (401, ''Unauthorized''), d)
      | Some userId \<Rightarrow>
     (case sessions d sid of
        None \<Rightarrow> (Inl (404, ''Session not found''), d)
      | Some session \<Rightarrow>
     (case users d userId of
        None \<Rightarrow> (Inl (404, ''User not found''), d)
      | Some user \<Rightarrow>
          let ps = filter (\<lambda>p. p \<noteq> userId) (participants session);
              s1 = session\<lparr>participants := ps\<rparr>;
              ends = (host session = userId \<or> length ps = 0);
              s2 = (if ends then s1\<lparr>isActive := False, endedAt := Some now\<rparr> else s1);
              us1 = (if ends then updateMany_unset ps (users d) else users d);
              ss1 = (sessions d)(sid \<mapsto> s2);
              us2 = us1(userId \<mapsto> user\<lparr>activeListenSession := None\<rparr>)
          in (Inr ''Left session successfully'',
              d\<lparr>users := us2, sessions := ss1\<rparr>))))"

section \<open>A sample store\<close>

text \<open>
  Users 10, 20 and 30 are friends along the chain 10 - 20 - 30. User 30 hosts session 4
  with user 20, user 80 listens alone in session 9, and user 10 has invited user 20 with
  request 7, which expires at instant 1000.
\<close>

definition track_T :: track where
  "track_T = \<lparr>track_id = ''t1'', title = ''Song'', artist = ''Band'', uri = ''uri:t1'',
              artwork = None, duration = Some 180\<rparr>"

definition session_S1 :: session where
  "session_S1 = \<lparr>host = 30, participants = [30, 20], currentTrack = Some track_T,
                 queue = [track_T],
                 playbackState = \<lparr>position = 42, isPlaying = True, updatedAt = 100\<rparr>,
                 isActive = True, endedAt = None\<rparr>"

definition session_solo :: session where
  "session_solo = \<lparr>host = 80, participants = [80], currentTrack = None, queue = [],
                   playbackState = \<lparr>position = 0, isPlaying = False, updatedAt = 50\<rparr>,
                   isActive = True, endedAt = None\<rparr>"

definition request_7 :: request where
  "request_7 = \<lparr>from_id = 10, to_id = 20, status = Pending, sessionId = None,
                expiresAt = 1000\<rparr>"

definition user_10 :: user where
  "user_10 = \<lparr>friends = [20], listenTogetherRequests = [], activeListenSession = None\<rparr>"

definition user_20 :: user where
  "user_20 = \<lparr>friends = [10, 30], listenTogetherRequests = [7], activeListenSession = Some 4\<rparr>"

definition user_30 :: user where
  "user_30 = \<lparr>friends = [20], listenTogetherRequests = [], activeListenSession = Some 4\<rparr>"

definition user_80 :: user where
  "user_80 = \<lparr>friends = [], listenTogetherRequests = [], activeListenSession = Some 9\<rparr>"

definition db_invited :: db where
  "db_invited =
     \<lparr>users = [10 \<mapsto> user_10, 20 \<mapsto> user_20, 30 \<mapsto> user_30, 80 \<mapsto> user_80],
      sessions = [4 \<mapsto> session_S1, 9 \<mapsto> session_solo],
      requests = [7 \<mapsto> request_7]\<rparr>"

text \<open>The store after user 20 has accepted request 7 at instant 500, as session 5.\<close>

definition db_accepted :: db where
  "db_accepted = snd (accept_request 7 (Some 20) 500 5 db_invited)"

text \<open>Request bodies: only \<^verbatim>\<open>isPlaying\<close>; a negative position; nulls for track and queue.\<close>

definition body_pause :: body where
  "body_pause = \<lparr>body_currentTrack = Absent, body_position = Absent,
                 body_isPlaying = Val False, body_queue = Absent\<rparr>"

definition body_rewind :: body where
  "body_rewind = \<lparr>body_currentTrack = Absent, body_position = Val (- 5),
                  body_isPlaying = Absent, body_queue = Absent\<rparr>"

definition body_nulls :: body where
  "body_nulls = \<lparr>body_currentTrack = Null, body_position = Val 10,
                 body_isPlaying = Absent, body_queue = Null\<rparr>"

section \<open>Facts about the handlers' building blocks\<close>

lemma findByIdAndUpdate_ended_apply:
  "findByIdAndUpdate_ended i now ss j =
     (if j = i then map_option (\<lambda>s. s\<lparr>isActive := False, endedAt := Some now\<rparr>) (ss j)
      else ss j)"
  by (simp add: findByIdAndUpdate_ended_def split: option.splits)

lemma leave_session_found:
  assumes "sessions d sid = Some s" and "users d u = Some usr"
  shows "leave_session sid (Some u) now d =
    (Inr ''Left session successfully'',
     d\<lparr>users :=
         (if host s = u \<or> filter (\<lambda>p. p \<noteq> u) (participants s) = []
          then updateMany_unset (filter (\<lambda>p. p \<noteq> u) (participants s)) (users d)
          else users d)(u \<mapsto> usr\<lparr>activeListenSession := None\<rparr>),
       sessions :=
         (sessions d)(sid \<mapsto>
           (if host s = u \<or> filter (\<lambda>p. p \<noteq> u) (participants s) = []
            then s\<lparr>participants := filter (\<lambda>p. p \<noteq> u) (participants s),
                   isActive := False, endedAt := Some now\<rparr>
            else s\<lparr>participants := filter (\<lambda>p. p \<noteq> u) (participants s)\<rparr>))\<rparr>)"
  using assms by (simp add: leave_session_def Let_def)

lemma db_invited_simps:
  "users db_invited 10 = Some user_10" "users db_invited 20 = Some user_20"
  "users db_invited 30 = Some user_30" "users db_invited 80 = Some user_80"
  "sessions db_invited 4 = Some session_S1" "sessions db_invited 5 = None"
  "sessions db_invited 9 = Some session_solo"
  "requests db_invited 7 = Some request_7"
  by (simp_all add: db_invited_def)

lemma db_accepted_simps:
  "users db_accepted 20 =
     Some (user_20\<lparr>activeListenSession := Some 5, listenTogetherRequests := []\<rparr>)"
  "users db_accepted 30 = Some user_30"
  "sessions db_accepted 4 = Some (session_S1\<lparr>isActive := False, endedAt := Some 500\<rparr>)"
  "sessions db_accepted 5 = Some (new_session 10 20 500)"
  "requests db_accepted 7 = Some (request_7\<lparr>status := Accepted, sessionId := Some 5\<rparr>)"
  by (simp_all add: db_accepted_def accept_request_def db_invited_simps Let_def
        request_7_def user_10_def user_20_def findByIdAndUpdate_ended_def)

section \<open>Invitations\<close>

text \<open>
  C1. The status of an invitation is meant to leave \<open>Pending\<close> once and then stay. The
  accept handler refuses a request that is not pending, but the decline handler writes
  \<open>Declined\<close> whatever the stored status is: in the sample store, request 7 has been
  accepted (its session is 5), the recipient then declines it, the call succeeds and the
  stored status goes from \<open>Accepted\<close> to \<open>Declined\<close>.
\<close>

theorem decline_overwrites_accepted:
  "requests db_accepted 7 =
     Some \<lparr>from_id = 10, to_id = 20, status = Accepted, sessionId = Some 5, expiresAt = 1000\<rparr>
   \<and> fst (decline_request 7 (Some 20) db_accepted) = Inr ''Request declined''
   \<and> requests (snd (decline_request 7 (Some 20) db_accepted)) 7 =
     Some \<lparr>from_id = 10, to_id = 20, status = Declined, sessionId = Some 5, expiresAt = 1000\<rparr>"
  by (simp add: decline_request_def db_accepted_simps Let_def request_7_def)

text \<open>
  C2. The recipient \<open>u\<close> of a pending, unexpired request has the active session \<open>S1\<close>
  (stored under \<open>a\<close>) and accepts; both users exist and \<open>newId\<close> is a fresh session id.
  Then the call succeeds; \<open>S1\<close> is stored inactive with \<open>endedAt\<close> set to now; the pointer
  of \<open>u\<close> is \<open>newId\<close>, which is not \<open>a\<close>; and the session stored under \<open>newId\<close> has the
  inviter as host, the inviter and \<open>u\<close> as participants, no track, an empty queue and
  paused playback at position 0.
\<close>

theorem accept_supersedes_active_session:
  assumes "requests d rid = Some r" and "to_id r = u" and "status r = Pending"
    and "\<not> expiresAt r < now"
    and "users d (from_id r) = Some hu" and "users d u = Some pu"
    and "activeListenSession pu = Some a" and "sessions d a = Some S1" and "isActive S1"
    and "sessions d newId = None"
    and "accept_request rid (Some u) now newId d = (res, d')"
  shows "\<exists>n. res = Inr (newId, n)
           \<and> sessions d' newId = Some n
           \<and> host n = from_id r \<and> participants n = [from_id r, u]
           \<and> currentTrack n = None \<and> queue n = []
           \<and> position (playbackState n) = 0 \<and> \<not> isPlaying (playbackState n)
           \<and> isActive n \<and> endedAt n = None
           \<and> sessions d' a = Some (S1\<lparr>isActive := False, endedAt := Some now\<rparr>)
           \<and> map_option activeListenSession (users d' u) = Some (Some newId)
           \<and> newId \<noteq> a"
proof -
  let ?us = "(users d)(from_id r \<mapsto> hu\<lparr>activeListenSession := Some newId\<rparr>,
      u \<mapsto> pu\<lparr>activeListenSession := Some newId,
               listenTogetherRequests := filter (\<lambda>i. i \<noteq> rid) (listenTogetherRequests pu)\<rparr>)"
  let ?ss = "(findByIdAndUpdate_ended a now
                (case activeListenSession hu of
                   None \<Rightarrow> sessions d
                 | Some h \<Rightarrow> findByIdAndUpdate_ended h now (sessions d)))
             (newId \<mapsto> new_session (from_id r) u now)"
  let ?rs = "(requests d)(rid \<mapsto> r\<lparr>status := Accepted, sessionId := Some newId\<rparr>)"
  have ne: "newId \<noteq> a"
    using assms(8,10) by auto
  have "accept_request rid (Some u) now newId d =
     (Inr (newId, new_session (from_id r) u now),
      \<lparr>users = ?us, sessions = ?ss, requests = ?rs\<rparr>)"
    using assms(1-7) by (simp add: accept_request_def Let_def)
  with assms(11) have res: "res = Inr (newId, new_session (from_id r) u now)"
    and d': "d' = \<lparr>users = ?us, sessions = ?ss, requests = ?rs\<rparr>"
    by simp_all
  have old: "sessions d' a = Some (S1\<lparr>isActive := False, endedAt := Some now\<rparr>)"
    using ne assms(8)
    by (simp add: d' findByIdAndUpdate_ended_apply split: option.splits)
  have new: "sessions d' newId = Some (new_session (from_id r) u now)"
    by (simp add: d')
  have ptr: "map_option activeListenSession (users d' u) = Some (Some newId)"
    by (simp add: d')
  show ?thesis
    using res old new ptr ne by (simp add: new_session_def)
qed

theorem accept_supersedes_active_session_witness:
  "\<exists>n. fst (accept_request 7 (Some 20) 500 5 db_invited) = Inr (5, n)
      \<and> sessions db_accepted 5 = Some n
      \<and> host n = 10 \<and> participants n = [10, 20]
      \<and> currentTrack n = None \<and> queue n = []
      \<and> position (playbackState n) = 0 \<and> \<not> isPlaying (playbackState n)
      \<and> isActive n \<and> endedAt n = None
      \<and> sessions db_accepted 4 = Some (session_S1\<lparr>isActive := False, endedAt := Some 500\<rparr>)
      \<and> map_option activeListenSession (users db_accepted 20) = Some (Some 5)"
proof -
  have h1: "requests db_invited 7 = Some request_7"
    by (simp add: db_invited_simps)
  have h2: "to_id request_7 = 20" and h3: "status request_7 = Pending"
    and h4: "\<not> expiresAt request_7 < 500"
    by (simp_all add: request_7_def)
  have h5: "users db_invited (from_id request_7) = Some user_10"
    by (simp add: request_7_def db_invited_simps)
  have h6: "users db_invited 20 = Some user_20"
    by (simp add: db_invited_simps)
  have h7: "activeListenSession user_20 = Some 4"
    by (simp add: user_20_def)
  have h8: "sessions db_invited 4 = Some session_S1" and h10: "sessions db_invited 5 = None"
    by (simp_all add: db_invited_simps)
  have h9: "isActive session_S1"
    by (simp add: session_S1_def)
  have h11: "accept_request 7 (Some 20) 500 5 db_invited =
               (fst (accept_request 7 (Some 20) 500 5 db_invited), db_accepted)"
    by (simp add: db_accepted_def)
  from accept_supersedes_active_session [OF h1 h2 h3 h4 h5 h6 h7 h8 h9 h10 h11]
  show ?thesis
    by (simp add: request_7_def)
qed

text \<open>
  C3. A request is stored as pending and its \<open>expiresAt\<close> lies before now. When its
  recipient accepts, the answer is 400 "Request has expired" and the store then holds
  the request with status \<open>Expired\<close>, nothing else changed. Accepting again, at any
  instant, is answered with 400 "Request is no longer pending" and changes nothing.
\<close>

theorem accept_expired_then_invalid_state:
  assumes "requests d rid = Some r" and "to_id r = u" and "status r = Pending"
    and "expiresAt r < now"
  shows "accept_request rid (Some u) now newId d =
           (Inl (400, ''Request has expired''),
            d\<lparr>requests := (requests d)(rid \<mapsto> r\<lparr>status := Expired\<rparr>)\<rparr>)
       \<and> accept_request rid (Some u) now' newId'
             (snd (accept_request rid (Some u) now newId d)) =
           (Inl (400, ''Request is no longer pending''),
            snd (accept_request rid (Some u) now newId d))"
proof -
  let ?d1 = "d\<lparr>requests := (requests d)(rid \<mapsto> r\<lparr>status := Expired\<rparr>)\<rparr>"
  have first: "accept_request rid (Some u) now newId d =
      (Inl (400, ''Request has expired''), ?d1)"
    using assms by (simp add: accept_request_def)
  have "requests ?d1 rid = Some (r\<lparr>status := Expired\<rparr>)"
    by simp
  then have "accept_request rid (Some u) now' newId' ?d1 =
      (Inl (400, ''Request is no longer pending''), ?d1)"
    using assms(2) by (simp add: accept_request_def)
  with first show ?thesis by simp
qed

theorem accept_expired_then_invalid_state_witness:
  "fst (accept_request 7 (Some 20) 2000 5 db_invited) = Inl (400, ''Request has expired'')
   \<and> requests (snd (accept_request 7 (Some 20) 2000 5 db_invited)) 7 =
       Some (request_7\<lparr>status := Expired\<rparr>)
   \<and> fst (accept_request 7 (Some 20) 2001 6
            (snd (accept_request 7 (Some 20) 2000 5 db_invited))) =
       Inl (400, ''Request is no longer pending'')"
proof -
  have h1: "requests db_invited 7 = Some request_7"
    by (simp add: db_invited_simps)
  have h2: "to_id request_7 = 20" and h3: "status request_7 = Pending"
    and h4: "expiresAt request_7 < 2000"
    by (simp_all add: request_7_def)
  note w = accept_expired_then_invalid_state [OF h1 h2 h3 h4, of 5 2001 6]
  note first = conjunct1 [OF w] and second = conjunct2 [OF w]
  show ?thesis
  proof (intro conjI)
    show "fst (accept_request 7 (Some 20) 2000 5 db_invited) =
            Inl (400, ''Request has expired'')"
      by (simp only: first fst_conv)
    show "requests (snd (accept_request 7 (Some 20) 2000 5 db_invited)) 7 =
            Some (request_7\<lparr>status := Expired\<rparr>)"
      by (simp add: first)
    show "fst (accept_request 7 (Some 20) 2001 6
                 (snd (accept_request 7 (Some 20) 2000 5 db_invited))) =
            Inl (400, ''Request is no longer pending'')"
      by (simp only: second fst_conv)
  qed
qed

section \<open>Sessions\<close>

text \<open>
  C4. A caller whose user document exists leaves an active session. If the caller is the
  host, the session is stored inactive with \<open>endedAt\<close> set to now, and every other
  participant that has a user document has no active-session pointer afterwards. If the
  caller is a participant other than the host and some other participant remains, the
  session is stored still active, without the caller among its participants, the
  caller's pointer is cleared and no other user document changes.
\<close>

theorem leave_host_ends_nonhost_keeps:
  assumes "sessions d sid = Some s" and "isActive s" and "users d u = Some usr"
    and "leave_session sid (Some u) now d = (res, d')"
  shows "res = Inr ''Left session successfully''
       \<and> (host s = u \<longrightarrow>
            (\<exists>s'. sessions d' sid = Some s' \<and> \<not> isActive s' \<and> endedAt s' = Some now)
          \<and> (\<forall>p \<in> set (participants s). p \<noteq> u \<longrightarrow>
                (\<forall>pu. users d' p = Some pu \<longrightarrow> activeListenSession pu = None)))
       \<and> (host s \<noteq> u \<and> u \<in> set (participants s) \<and> (\<exists>p \<in> set (participants s). p \<noteq> u) \<longrightarrow>
            (\<exists>s'. sessions d' sid = Some s' \<and> isActive s' \<and> endedAt s' = endedAt s
                \<and> participants s' = filter (\<lambda>p. p \<noteq> u) (participants s))
          \<and> users d' u = Some (usr\<lparr>activeListenSession := None\<rparr>)
          \<and> (\<forall>w. w \<noteq> u \<longrightarrow> users d' w = users d w))"
proof -
  let ?ps = "filter (\<lambda>p. p \<noteq> u) (participants s)"
  note found = leave_session_found [OF assms(1) assms(3), of now]
  have res: "res = Inr ''Left session successfully''"
    using assms(4) found by simp
  have hostcase:
    "(\<exists>s'. sessions d' sid = Some s' \<and> \<not> isActive s' \<and> endedAt s' = Some now)
     \<and> (\<forall>p \<in> set (participants s). p \<noteq> u \<longrightarrow>
           (\<forall>pu. users d' p = Some pu \<longrightarrow> activeListenSession pu = None))"
    if "host s = u"
  proof -
    from that assms(4) found
    have d': "d' = d\<lparr>users := (updateMany_unset ?ps (users d))
                                (u \<mapsto> usr\<lparr>activeListenSession := None\<rparr>),
                     sessions := (sessions d)(sid \<mapsto>
                        s\<lparr>participants := ?ps, isActive := False, endedAt := Some now\<rparr>)\<rparr>"
      by simp
    show ?thesis
      by (auto simp add: d' updateMany_unset_def)
  qed
  have othercase:
    "(\<exists>s'. sessions d' sid = Some s' \<and> isActive s' \<and> endedAt s' = endedAt s
          \<and> participants s' = ?ps)
     \<and> users d' u = Some (usr\<lparr>activeListenSession := None\<rparr>)
     \<and> (\<forall>w. w \<noteq> u \<longrightarrow> users d' w = users d w)"
    if "host s \<noteq> u" and "\<exists>p \<in> set (participants s). p \<noteq> u"
  proof -
    from that(2) have "?ps \<noteq> []"
      by (simp add: filter_empty_conv)
    with that(1) assms(4) found
    have d': "d' = d\<lparr>users := (users d)(u \<mapsto> usr\<lparr>activeListenSession := None\<rparr>),
                     sessions := (sessions d)(sid \<mapsto> s\<lparr>participants := ?ps\<rparr>)\<rparr>"
      by simp
    show ?thesis
      using assms(2) by (simp add: d')
  qed
  show ?thesis
    using res hostcase othercase by blast
qed

theorem leave_host_ends_nonhost_keeps_witness:
  "(\<exists>s'. sessions (snd (leave_session 4 (Some 30) 600 db_invited)) 4 = Some s'
        \<and> \<not> isActive s' \<and> endedAt s' = Some 600)
   \<and> map_option activeListenSession
         (users (snd (leave_session 4 (Some 30) 600 db_invited)) 20) = Some None
   \<and> (\<exists>s'. sessions (snd (leave_session 4 (Some 20) 600 db_invited)) 4 = Some s'
        \<and> isActive s' \<and> participants s' = [30])
   \<and> users (snd (leave_session 4 (Some 20) 600 db_invited)) 30 = Some user_30"
proof -
  have h1: "sessions db_invited 4 = Some session_S1"
    by (simp add: db_invited_simps)
  have h2: "isActive session_S1"
    by (simp add: session_S1_def)
  have h30: "users db_invited 30 = Some user_30" and h20: "users db_invited 20 = Some user_20"
    by (simp_all add: db_invited_simps)
  have r30: "leave_session 4 (Some 30) 600 db_invited =
               (fst (leave_session 4 (Some 30) 600 db_invited),
                snd (leave_session 4 (Some 30) 600 db_invited))"
    and r20: "leave_session 4 (Some 20) 600 db_invited =
               (fst (leave_session 4 (Some 20) 600 db_invited),
                snd (leave_session 4 (Some 20) 600 db_invited))"
    by simp_all
  note host_leaves = leave_host_ends_nonhost_keeps [OF h1 h2 h30 r30]
  note guest_leaves = leave_host_ends_nonhost_keeps [OF h1 h2 h20 r20]
  have a: "host session_S1 = 30" and b: "participants session_S1 = [30, 20]"
    by (simp_all add: session_S1_def)
  from host_leaves a b
  have p0: "(\<exists>s'. sessions (snd (leave_session 4 (Some 30) 600 db_invited)) 4 = Some s'
        \<and> \<not> isActive s' \<and> endedAt s' = Some 600)
   \<and> (\<forall>pu. users (snd (leave_session 4 (Some 30) 600 db_invited)) 20 = Some pu \<longrightarrow>
             activeListenSession pu = None)"
    by simp
  have "users (snd (leave_session 4 (Some 30) 600 db_invited)) 20 \<noteq> None"
    by (simp add: leave_session_found [OF h1 h30] a b updateMany_unset_def h20)
  with p0
  have p1: "(\<exists>s'. sessions (snd (leave_session 4 (Some 30) 600 db_invited)) 4 = Some s'
        \<and> \<not> isActive s' \<and> endedAt s' = Some 600)
   \<and> map_option activeListenSession
         (users (snd (leave_session 4 (Some 30) 600 db_invited)) 20) = Some None"
    by auto
  from guest_leaves a b
  have p2: "(\<exists>s'. sessions (snd (leave_session 4 (Some 20) 600 db_invited)) 4 = Some s'
        \<and> isActive s' \<and> participants s' = [30])
   \<and> users (snd (leave_session 4 (Some 20) 600 db_invited)) 30 = Some user_30"
    using h30 by auto
  from p1 p2 show ?thesis
    by blast
qed

text \<open>
  C5. The pointer of user \<open>u\<close> names a session that is missing or not active. Then
  \<^verbatim>\<open>GET /active\<close> answers \<^verbatim>\<open>{session: null}\<close> and stores the user without the
  pointer, nothing else changed. A second call finds no pointer: it answers
  \<^verbatim>\<open>{session: null}\<close> again and leaves the store as it is.
\<close>

theorem get_active_read_repair:
  assumes "users d u = Some usr" and "activeListenSession usr = Some a"
    and "case sessions d a of None \<Rightarrow> True | Some s \<Rightarrow> \<not> isActive s"
  shows "get_active (Some u) d =
           (Inr None, d\<lparr>users := (users d)(u \<mapsto> usr\<lparr>activeListenSession := None\<rparr>)\<rparr>)
       \<and> map_option activeListenSession (users (snd (get_active (Some u) d)) u) = Some None
       \<and> get_active (Some u) (snd (get_active (Some u) d)) =
           (Inr None, snd (get_active (Some u) d))"
proof -
  let ?d1 = "d\<lparr>users := (users d)(u \<mapsto> usr\<lparr>activeListenSession := None\<rparr>)\<rparr>"
  have first: "get_active (Some u) d = (Inr None, ?d1)"
    using assms by (simp add: get_active_def split: option.splits)
  have "get_active (Some u) ?d1 = (Inr None, ?d1)"
    by (simp add: get_active_def)
  with first show ?thesis by simp
qed

theorem get_active_read_repair_witness:
  "fst (get_active (Some 30) db_accepted) = Inr None
   \<and> map_option activeListenSession (users (snd (get_active (Some 30) db_accepted)) 30) =
       Some None
   \<and> get_active (Some 30) (snd (get_active (Some 30) db_accepted)) =
       (Inr None, snd (get_active (Some 30) db_accepted))"
proof -
  have h1: "users db_accepted 30 = Some user_30"
    by (simp add: db_accepted_simps)
  have h2: "activeListenSession user_30 = Some 4"
    by (simp add: user_30_def)
  have h3: "case sessions db_accepted 4 of None \<Rightarrow> True | Some s \<Rightarrow> \<not> isActive s"
    by (simp add: db_accepted_simps)
  note w = get_active_read_repair [OF h1 h2 h3]
  show ?thesis
  proof (intro conjI)
    show "fst (get_active (Some 30) db_accepted) = Inr None"
      by (simp only: conjunct1 [OF w] fst_conv)
    show "map_option activeListenSession
            (users (snd (get_active (Some 30) db_accepted)) 30) = Some None"
      by (rule conjunct1 [OF conjunct2 [OF w]])
    show "get_active (Some 30) (snd (get_active (Some 30) db_accepted)) =
            (Inr None, snd (get_active (Some 30) db_accepted))"
      by (rule conjunct2 [OF conjunct2 [OF w]])
  qed
qed

section \<open>Playback sync\<close>

text \<open>
  C6. On an active session, a sync call by an authenticated caller who is not the host,
  participant or not, is answered with 403 "Only the host can update playback state" and
  the store, with the session document in it, is returned as it was.
\<close>

theorem sync_non_host_forbidden:
  assumes "sessions d sid = Some s" and "isActive s" and "u \<noteq> host s"
  shows "sync_playback sid (Some u) b now d =
           (Inl (403, ''Only the host can update playback state''), d)"
  using assms by (auto simp add: sync_playback_def)

theorem sync_non_host_forbidden_witness:
  "20 \<in> set (participants session_S1)
   \<and> sync_playback 4 (Some 20) body_pause 600 db_invited =
       (Inl (403, ''Only the host can update playback state''), db_invited)"
proof -
  have h1: "sessions db_invited 4 = Some session_S1"
    by (simp add: db_invited_simps)
  have h2: "isActive session_S1" and h3: "20 \<noteq> host session_S1"
    and p: "20 \<in> set (participants session_S1)"
    by (simp_all add: session_S1_def)
  from sync_non_host_forbidden [OF h1 h2 h3] p show ?thesis
    by simp
qed

text \<open>
  C7. The host syncs an active session. Each of position, \<open>isPlaying\<close>, current track
  and queue keeps its value when the body has no such key (or has null there) and takes
  the body's value when it has one, track and queue as a whole; \<open>updatedAt\<close> of the
  playback state is now in every case. Host, participants, \<open>isActive\<close> and \<open>endedAt\<close>
  of the session, the other sessions, the users and the requests stay as they were, and
  the answer carries the stored playback state and track.
\<close>

theorem sync_applies_patch:
  assumes "sessions d sid = Some s" and "isActive s" and "host s = u"
    and "sync_playback sid (Some u) b now d = (res, d')"
  shows "\<exists>s'. sessions d' sid = Some s'
           \<and> res = Inr (playbackState s', currentTrack s')
           \<and> (body_position b = Absent \<or> body_position b = Null \<longrightarrow>
                 position (playbackState s') = position (playbackState s))
           \<and> (\<forall>p. body_position b = Val p \<longrightarrow> position (playbackState s') = p)
           \<and> (body_isPlaying b = Absent \<or> body_isPlaying b = Null \<longrightarrow>
                 isPlaying (playbackState s') = isPlaying (playbackState s))
           \<and> (\<forall>p. body_isPlaying b = Val p \<longrightarrow> isPlaying (playbackState s') = p)
           \<and> (body_currentTrack b = Absent \<or> body_currentTrack b = Null \<longrightarrow>
                 currentTrack s' = currentTrack s)
           \<and> (\<forall>t. body_currentTrack b = Val t \<longrightarrow> currentTrack s' = Some t)
           \<and> (body_queue b = Absent \<or> body_queue b = Null \<longrightarrow> queue s' = queue s)
           \<and> (\<forall>q. body_queue b = Val q \<longrightarrow> queue s' = q)
           \<and> updatedAt (playbackState s') = now
           \<and> host s' = host s \<and> participants s' = participants s
           \<and> isActive s' = isActive s \<and> endedAt s' = endedAt s
           \<and> (\<forall>j. j \<noteq> sid \<longrightarrow> sessions d' j = sessions d j)
           \<and> users d' = users d \<and> requests d' = requests d"
  using assms
  by (auto simp add: sync_playback_def Let_def split: field.splits)

theorem sync_applies_patch_witness:
  "fst (sync_playback 4 (Some 30) body_pause 600 db_invited) =
     Inr (\<lparr>position = 42, isPlaying = False, updatedAt = 600\<rparr>, Some track_T)
   \<and> sessions (snd (sync_playback 4 (Some 30) body_pause 600 db_invited)) 4 =
     Some (session_S1\<lparr>playbackState := \<lparr>position = 42, isPlaying = False, updatedAt = 600\<rparr>\<rparr>)"
proof -
  have h1: "sessions db_invited 4 = Some session_S1"
    by (simp add: db_invited_simps)
  have h2: "isActive session_S1" and h3: "host session_S1 = 30"
    by (simp_all add: session_S1_def)
  have h4: "sync_playback 4 (Some 30) body_pause 600 db_invited =
              (fst (sync_playback 4 (Some 30) body_pause 600 db_invited),
               snd (sync_playback 4 (Some 30) body_pause 600 db_invited))"
    by simp
  from sync_applies_patch [OF h1 h2 h3 h4]
  obtain s' where s': "sessions (snd (sync_playback 4 (Some 30) body_pause 600 db_invited)) 4 =
        Some s'"
    and res: "fst (sync_playback 4 (Some 30) body_pause 600 db_invited) =
        Inr (playbackState s', currentTrack s')"
    and fields: "position (playbackState s') = position (playbackState session_S1)"
      "isPlaying (playbackState s') = False"
      "currentTrack s' = currentTrack session_S1" "queue s' = queue session_S1"
      "updatedAt (playbackState s') = 600"
      "host s' = host session_S1" "participants s' = participants session_S1"
      "isActive s' = isActive session_S1" "endedAt s' = endedAt session_S1"
    by (auto simp add: body_pause_def)
  from fields have "s' = session_S1\<lparr>playbackState :=
      \<lparr>position = 42, isPlaying = False, updatedAt = 600\<rparr>\<rparr>"
    by (cases s', cases "playbackState s'") (simp add: session_S1_def)
  with s' res show ?thesis
    by (simp add: session_S1_def)
qed

text \<open>
  C8 as stated, that a negative position is never applied, fails. The position of
  session 4 is 42; its host syncs with a body whose position is -5; the call succeeds and
  the stored position is -5.
\<close>

theorem sync_negative_position_counterexample:
  "sessions db_invited 4 = Some session_S1
   \<and> 0 \<le> position (playbackState session_S1)
   \<and> body_position body_rewind = Val (- 5)
   \<and> fst (sync_playback 4 (Some 30) body_rewind 600 db_invited) =
       Inr (\<lparr>position = - 5, isPlaying = True, updatedAt = 600\<rparr>, Some track_T)
   \<and> sessions (snd (sync_playback 4 (Some 30) body_rewind 600 db_invited)) 4 =
       Some (session_S1\<lparr>playbackState := \<lparr>position = - 5, isPlaying = True, updatedAt = 600\<rparr>\<rparr>)
   \<and> position (playbackState
        (session_S1\<lparr>playbackState := \<lparr>position = - 5, isPlaying = True, updatedAt = 600\<rparr>\<rparr>)) < 0"
  by (simp add: sync_playback_def db_invited_simps session_S1_def body_rewind_def)

text \<open>
  C8, amended. The sync handler tests only that the position of the body is a number:
  when the host syncs an active session, the stored position is the body's number,
  whatever its sign, and the prior position when the body has none. So the stored
  position is non-negative exactly when the body's number is, or, without one, when the
  prior position was.
\<close>

theorem sync_position_unchecked:
  assumes "sessions d sid = Some s" and "isActive s" and "host s = u"
    and "sync_playback sid (Some u) b now d = (res, d')"
  shows "\<exists>s'. sessions d' sid = Some s'
           \<and> (\<forall>p. body_position b = Val p \<longrightarrow> position (playbackState s') = p)
           \<and> (body_position b = Absent \<or> body_position b = Null \<longrightarrow>
                 position (playbackState s') = position (playbackState s))
           \<and> (0 \<le> position (playbackState s') \<longleftrightarrow>
                 (case body_position b of
                    Val p \<Rightarrow> 0 \<le> p
                  | _ \<Rightarrow> 0 \<le> position (playbackState s)))"
  using assms
  by (auto simp add: sync_playback_def Let_def split: field.splits)

theorem sync_position_unchecked_witness:
  "\<exists>s'. sessions (snd (sync_playback 4 (Some 30) body_nulls 600 db_invited)) 4 = Some s'
      \<and> position (playbackState s') = 10 \<and> 0 \<le> position (playbackState s')"
proof -
  have h1: "sessions db_invited 4 = Some session_S1"
    by (simp add: db_invited_simps)
  have h2: "isActive session_S1" and h3: "host session_S1 = 30"
    by (simp_all add: session_S1_def)
  have h4: "sync_playback 4 (Some 30) body_nulls 600 db_invited =
              (fst (sync_playback 4 (Some 30) body_nulls 600 db_invited),
               snd (sync_playback 4 (Some 30) body_nulls 600 db_invited))"
    by simp
  from sync_position_unchecked [OF h1 h2 h3 h4] show ?thesis
    by (auto simp add: body_nulls_def)
qed

text \<open>
  C9. Whatever the caller, the body and the outcome of a sync call, a session that had a
  current track still has one afterwards. When the body's \<open>currentTrack\<close> is missing or
  null the session's track is the one it had, and when the body's \<open>queue\<close> is missing or
  null the session's queue is the one it had.
\<close>

theorem sync_never_clears_track:
  assumes "sessions d j = Some s"
    and "sync_playback sid caller b now d = (res, d')"
  shows "\<exists>s'. sessions d' j = Some s'
           \<and> (currentTrack s \<noteq> None \<longrightarrow> currentTrack s' \<noteq> None)
           \<and> (body_currentTrack b = Absent \<or> body_currentTrack b = Null \<longrightarrow>
                 currentTrack s' = currentTrack s)
           \<and> (body_queue b = Absent \<or> body_queue b = Null \<longrightarrow> queue s' = queue s)"
  using assms
  by (cases "j = sid")
     (auto simp add: sync_playback_def Let_def split: field.splits option.splits if_splits)

theorem sync_never_clears_track_witness:
  "\<exists>s'. sessions (snd (sync_playback 4 (Some 30) body_nulls 600 db_invited)) 4 = Some s'
      \<and> currentTrack s' = Some track_T \<and> queue s' = [track_T]"
proof -
  have h1: "sessions db_invited 4 = Some session_S1"
    by (simp add: db_invited_simps)
  have h2: "sync_playback 4 (Some 30) body_nulls 600 db_invited =
              (fst (sync_playback 4 (Some 30) body_nulls 600 db_invited),
               snd (sync_playback 4 (Some 30) body_nulls 600 db_invited))"
    by simp
  from sync_never_clears_track [OF h1 h2] show ?thesis
    by (auto simp add: body_nulls_def session_S1_def)
qed

section \<open>Leaving a session one is not in\<close>

text \<open>
  C10. A caller \<open>u\<close> whose user document exists leaves an existing session. The call
  succeeds and stores \<open>u\<close> without an active-session pointer, whatever the pointer named
  and whether or not \<open>u\<close> was a participant. When \<open>u\<close> was not a participant the
  session's participants are the same afterwards; when moreover \<open>u\<close> is not the host
  and the session has a participant, no session and no other user changes at all.
\<close>

theorem leave_clears_caller_pointer:
  assumes "sessions d sid = Some s" and "users d u = Some usr"
    and "leave_session sid (Some u) now d = (res, d')"
  shows "res = Inr ''Left session successfully''
       \<and> users d' u = Some (usr\<lparr>activeListenSession := None\<rparr>)
       \<and> (u \<notin> set (participants s) \<longrightarrow>
            (\<exists>s'. sessions d' sid = Some s' \<and> participants s' = participants s))
       \<and> (u \<notin> set (participants s) \<and> host s \<noteq> u \<and> participants s \<noteq> [] \<longrightarrow>
            sessions d' = sessions d \<and> (\<forall>w. w \<noteq> u \<longrightarrow> users d' w = users d w))"
proof -
  have same: "filter (\<lambda>p. p \<noteq> u) (participants s) = participants s"
    if "u \<notin> set (participants s)"
    using that by (auto simp add: filter_id_conv)
  show ?thesis
    using assms same
    by (auto simp add: leave_session_def Let_def fun_upd_idem)
qed

theorem leave_clears_caller_pointer_witness:
  "activeListenSession user_80 = Some 9
   \<and> sessions db_invited 9 = Some session_solo
   \<and> isActive session_solo \<and> 80 \<in> set (participants session_solo)
   \<and> fst (leave_session 4 (Some 80) 600 db_invited) = Inr ''Left session successfully''
   \<and> users (snd (leave_session 4 (Some 80) 600 db_invited)) 80 =
       Some (user_80\<lparr>activeListenSession := None\<rparr>)
   \<and> sessions (snd (leave_session 4 (Some 80) 600 db_invited)) = sessions db_invited"
proof -
  have h1: "sessions db_invited 4 = Some session_S1"
    and h2: "users db_invited 80 = Some user_80"
    and y: "sessions db_invited 9 = Some session_solo"
    by (simp_all add: db_invited_simps)
  have h3: "leave_session 4 (Some 80) 600 db_invited =
              (fst (leave_session 4 (Some 80) 600 db_invited),
               snd (leave_session 4 (Some 80) 600 db_invited))"
    by simp
  have facts: "activeListenSession user_80 = Some 9" "isActive session_solo"
    "80 \<in> set (participants session_solo)"
    "80 \<notin> set (participants session_S1)" "host session_S1 \<noteq> 80"
    "participants session_S1 \<noteq> []"
    by (simp_all add: user_80_def session_solo_def session_S1_def)
  from leave_clears_caller_pointer [OF h1 h2 h3] facts y show ?thesis
    by simp
qed

end
